theory Spec2Isabelle
  imports Complex_Main "HOL-Library.Sublist" "HOL-Library.Multiset" "HOL-Library.Log_Nat"
begin

section \<open>Python values used by the training scripts\<close>

text \<open>
  The scripts under \<^verbatim>\<open>training/scripts\<close> are modelled function by function.
  Python floats are modelled by the rationals they denote (every finite float is a
  rational). Sums and differences of prices and PnL values are exact here; the product
  that decides the train/eval split is rounded to a double as Python rounds it. The
  values \<^verbatim>\<open>nan\<close>, \<^verbatim>\<open>inf\<close> and \<^verbatim>\<open>-0.0\<close> are outside the model.
  Python integers are \<^typ>\<open>int\<close>, strings are \<^typ>\<open>string\<close>.
\<close>

datatype error = ValueError | KeyError | DateError

text \<open>\<^verbatim>\<open>needle in hay\<close> on two strings: \<open>needle\<close> occurs as a contiguous slice.\<close>

definition str_in :: "string \<Rightarrow> string \<Rightarrow> bool" where
  "str_in needle hay = sublist needle hay"

text \<open>\<^verbatim>\<open>str(n)\<close> for an integer: decimal digits, a leading minus sign when negative.\<close>

definition digit_char :: "nat \<Rightarrow> char" where
  "digit_char d = ''0123456789'' ! d"

fun str_nat :: "nat \<Rightarrow> string" where
  "str_nat n = (if n < 10 then [digit_char n] else str_nat (n div 10) @ [digit_char (n mod 10)])"

declare str_nat.simps [simp del]

definition str_int :: "int \<Rightarrow> string" where
  "str_int i = (if i < 0 then CHR ''-'' # str_nat (nat (- i)) else str_nat (nat i))"

definition str_bool :: "bool \<Rightarrow> string" where
  "str_bool b = (if b then ''True'' else ''False'')"

text \<open>
  \<^verbatim>\<open>format(x, '.<d>f')\<close>: the exact value of \<open>x\<close> rounded to \<open>d\<close> decimals, ties to the
  even neighbour, the fraction padded with zeros to \<open>d\<close> digits, and a minus sign for a
  negative \<open>x\<close> (also when it rounds to zero: Python prints \<^verbatim>\<open>-0.00\<close>).
\<close>

definition round_half_even :: "rat \<Rightarrow> int" where
  "round_half_even x =
     (let f = \<lfloor>x\<rfloor>; d = x - of_int f
      in if d < 1 / 2 then f else if 1 / 2 < d then f + 1 else if even f then f else f + 1)"

definition zero_pad :: "nat \<Rightarrow> string \<Rightarrow> string" where
  "zero_pad w s = replicate (w - length s) CHR ''0'' @ s"

definition format_f :: "nat \<Rightarrow> rat \<Rightarrow> string" where
  "format_f d x =
     (let q = nat (round_half_even (\<bar>x\<bar> * 10 ^ d))
      in (if x < 0 then ''-'' else '''') @ str_nat (q div 10 ^ d) @
         (if d = 0 then '''' else CHR ''.'' # zero_pad d (str_nat (q mod 10 ^ d))))"

text \<open>
  Double precision. \<open>ilog2 x\<close> is the integer part of the binary logarithm of a positive
  \<open>x\<close>. \<open>round_double\<close> rounds to the nearest double, ties to the even mantissa: 53
  bits of mantissa, and the fixed spacing 2^-1074 of the subnormal range; a result beyond
  the largest finite double is outside the model. \<^verbatim>\<open>n * f\<close> for an integer \<open>n\<close> and a
  float \<open>f\<close> converts \<open>n\<close> to a double and rounds the product.
\<close>

definition ilog2 :: "rat \<Rightarrow> int" where
  "ilog2 x =
     (let (p, q) = quotient_of x; d = bitlen p - bitlen q
      in if 2 powi d \<le> x then d else d - 1)"

definition round_double :: "rat \<Rightarrow> rat" where
  "round_double x =
     (if x = 0 then 0
      else (let e = max (ilog2 \<bar>x\<bar> - 52) (- 1074);
                m = round_half_even (\<bar>x\<bar> / 2 powi e)
            in sgn x * of_int m * 2 powi e))"

definition float_of_nat :: "nat \<Rightarrow> rat" where
  "float_of_nat n = round_double (of_nat n)"

definition float_mul :: "rat \<Rightarrow> rat \<Rightarrow> rat" where
  "float_mul x y = round_double (x * y)"


section \<open>Prompt Formatter: \<^verbatim>\<open>TradingDataPreparer.format_for_training\<close>\<close>

record input_features =
  price :: rat
  volume :: rat
  volatility :: rat
  bodyOverAtr :: rat
  volumeZ :: rat
  spreadBps :: rat
  premiumPct :: rat
  realizedVol :: rat
  openInterest :: rat
  fundingRate :: rat

record labels =
  profitable :: bool
  pnl :: rat
  hold_time :: int
  exit_reason :: string

record example =
  timestamp :: int
  input_features :: input_features
  ai_decision :: string
  ai_confidence :: rat
  e3_trigger :: string
  labels :: labels

record formatted_example =
  instruction :: string
  output_of :: string
  input_of :: string

definition nl :: string where
  "nl = [CHR 0x0A]"

definition render_prompt :: "example \<Rightarrow> string" where
  "render_prompt ex =
     (let features = input_features ex
      in ''Analyze this trading signal:'' @ nl @
         ''Price: $'' @ format_f 2 (price features) @ nl @
         ''Volume Z-Score: '' @ format_f 2 (volumeZ features) @ nl @
         ''Body/ATR Ratio: '' @ format_f 3 (bodyOverAtr features) @ nl @
         ''Spread: '' @ format_f 1 (spreadBps features) @ '' bps'' @ nl @
         ''Realized Vol: '' @ format_f 2 (realizedVol features) @ ''%'' @ nl @
         ''Funding Rate: '' @ format_f 4 (fundingRate features) @ ''%'' @ nl @
         nl @
         ''AI Decision: '' @ ai_decision ex @ nl @
         ''AI Confidence: '' @ format_f 2 (ai_confidence ex) @ nl @
         ''E3 Trigger: '' @ e3_trigger ex @ nl @
         nl @
         ''Based on these market conditions, predict the trade outcome:'')"

definition render_target :: "labels \<Rightarrow> string" where
  "render_target l =
     ''Trade Analysis:'' @ nl @
     ''Profitable: '' @ str_bool (profitable l) @ nl @
     ''Expected PnL: $'' @ format_f 2 (pnl l) @ nl @
     ''Optimal Hold Time: '' @ str_int (hold_time l) @ '' minutes'' @ nl @
     ''Exit Strategy: '' @ exit_reason l @ nl @
     ''Market Regime: '' @ (if \<bar>pnl l\<bar> > 1 then ''trending'' else ''ranging'')"

definition format_example :: "example \<Rightarrow> formatted_example" where
  "format_example ex =
     \<lparr>instruction = render_prompt ex, output_of = render_target (labels ex), input_of = ''''\<rparr>"

definition format_for_training :: "example list \<Rightarrow> formatted_example list" where
  "format_for_training examples = map format_example examples"


section \<open>Evaluator: \<^verbatim>\<open>DriftE3ModelEvaluator.is_prediction_correct\<close>\<close>

definition is_prediction_correct :: "string \<Rightarrow> string \<Rightarrow> bool" where
  "is_prediction_correct prediction expected =
     (let pred_profitable = str_in ''Profitable: True'' prediction;
          expected_profitable = str_in ''Profitable: True'' expected
      in pred_profitable = expected_profitable)"


section \<open>Splitter/Writer: \<^verbatim>\<open>TradingDataPreparer.save_training_data\<close>\<close>

record config =
  data_source :: string
  train_split :: rat

text \<open>\<^verbatim>\<open>int(x)\<close> truncates towards zero; \<^verbatim>\<open>xs[:k]\<close> and \<^verbatim>\<open>xs[k:]\<close> count a negative
  \<open>k\<close> from the end and clamp at both ends.\<close>

definition py_int :: "rat \<Rightarrow> int" where
  "py_int x = (if 0 \<le> x then \<lfloor>x\<rfloor> else \<lceil>x\<rceil>)"

definition slice_to :: "int \<Rightarrow> 'a list \<Rightarrow> 'a list" where
  "slice_to k xs = (if 0 \<le> k then take (nat k) xs else take (length xs - nat (- k)) xs)"

definition slice_from :: "int \<Rightarrow> 'a list \<Rightarrow> 'a list" where
  "slice_from k xs = (if 0 \<le> k then drop (nat k) xs else drop (length xs - nat (- k)) xs)"

record stats =
  total_examples :: nat
  train_examples :: nat
  eval_examples :: nat
  profitable_trades :: nat
  unprofitable_trades :: nat
  created_at :: string

text \<open>The three files the writer leaves in \<^verbatim>\<open>training/data\<close>.\<close>

record saved_files =
  train_json :: "formatted_example list"
  eval_json :: "formatted_example list"
  dataset_stats_json :: stats

definition save_training_data :: "config \<Rightarrow> string \<Rightarrow> formatted_example list \<Rightarrow> saved_files" where
  "save_training_data cfg now examples =
     (let train_size = py_int (float_mul (float_of_nat (length examples)) (train_split cfg));
          train = slice_to train_size examples;
          eval = slice_from train_size examples
      in \<lparr>train_json = train,
          eval_json = eval,
          dataset_stats_json =
            \<lparr>total_examples = length examples,
             train_examples = length train,
             eval_examples = length eval,
             profitable_trades =
               length (filter (\<lambda>ex. str_in ''Profitable: True'' (output_of ex)) examples),
             unprofitable_trades =
               length (filter (\<lambda>ex. str_in ''Profitable: False'' (output_of ex)) examples),
             created_at = now\<rparr>\<rparr>)"


section \<open>Backtest Signal Extractor: \<^verbatim>\<open>extract_trading_signals\<close>\<close>

record trade =
  side :: string
  trade_price :: rat
  ts :: int

record backtest_data =
  trades :: "trade list"
  equityCurve :: "rat list"

record backtest_signal =
  s_timestamp :: int
  s_side :: string
  entry_price :: rat
  exit_price :: rat
  s_pnl :: rat
  s_hold_time :: rat
  s_profitable :: bool
  entry_time :: string
  exit_time :: string

text \<open>
  \<^verbatim>\<open>datetime.fromtimestamp(t).isoformat()\<close> renders seconds since the epoch in the
  machine's local time zone and raises for a time outside the years the platform supports.
  It is a parameter \<open>isofmt\<close> of the extractor: \<open>None\<close> where the call raises.
\<close>

type_synonym isoformat = "rat \<Rightarrow> string option"

definition find_exit :: "trade list \<Rightarrow> nat \<Rightarrow> trade option" where
  "find_exit ts_list i =
     (if i + 1 < length ts_list
      then (let next_trade = ts_list ! (i + 1)
            in if side next_trade = ''FLAT'' then Some next_trade else None)
      else None)"

definition make_signal :: "isoformat \<Rightarrow> trade \<Rightarrow> trade \<Rightarrow> error + backtest_signal" where
  "make_signal isofmt entry_trade exit_trade =
     (let entry_p = trade_price entry_trade;
          exit_p = trade_price exit_trade;
          entry_t = ts entry_trade;
          exit_t = ts exit_trade;
          p = (if side entry_trade = ''LONG'' then exit_p - entry_p else entry_p - exit_p);
          h = of_int (exit_t - entry_t) / (1000 * 60)
      in case isofmt (of_int entry_t / 1000) of
           None \<Rightarrow> Inl DateError
         | Some entry_iso \<Rightarrow>
             (case isofmt (of_int exit_t / 1000) of
                None \<Rightarrow> Inl DateError
              | Some exit_iso \<Rightarrow>
                  Inr \<lparr>s_timestamp = entry_t, s_side = side entry_trade,
                       entry_price = entry_p, exit_price = exit_p,
                       s_pnl = p, s_hold_time = h, s_profitable = (p > 0),
                       entry_time = entry_iso, exit_time = exit_iso\<rparr>))"

text \<open>One turn of the loop over \<^verbatim>\<open>enumerate(trades)\<close>; \<open>acc\<close> is the list \<^verbatim>\<open>signals\<close>
  so far, or the exception that has ended the loop.\<close>

definition extract_step ::
  "isoformat \<Rightarrow> trade list \<Rightarrow> nat \<times> trade \<Rightarrow> error + backtest_signal list
     \<Rightarrow> error + backtest_signal list" where
  "extract_step isofmt ts_list it acc =
     (case acc of
        Inl e \<Rightarrow> Inl e
      | Inr signals \<Rightarrow>
          (if side (snd it) \<in> set [''LONG'', ''SHORT'']
           then (case find_exit ts_list (fst it) of
                   None \<Rightarrow> Inr signals
                 | Some exit_trade \<Rightarrow>
                     (case make_signal isofmt (snd it) exit_trade of
                        Inl e \<Rightarrow> Inl e
                      | Inr s \<Rightarrow> Inr (signals @ [s])))
           else Inr signals))"

definition extract_trading_signals ::
  "isoformat \<Rightarrow> backtest_data \<Rightarrow> error + backtest_signal list" where
  "extract_trading_signals isofmt data =
     fold (extract_step isofmt (trades data)) (enumerate 0 (trades data)) (Inr [])"


section \<open>Signal/PnL Loader: \<^verbatim>\<open>load_trading_data\<close>, \<^verbatim>\<open>load_backtest_data\<close>\<close>

text \<open>
  Rows as the two SQL queries return them. Timestamps are integers (epoch milliseconds,
  as the bot and the backtest extractor store them); \<open>features\<close> is the stored JSON text,
  \<open>None\<close> for SQL \<^verbatim>\<open>NULL\<close>.
\<close>

record signal_row =
  sig_timestamp :: int
  decision :: string
  confidence :: rat
  trigger :: string
  features :: "string option"

record backtest_row = signal_row +
  b_pnl :: rat
  b_profitable :: int
  b_hold_time :: rat

record pnl_row =
  p_timestamp :: int
  symbol :: string
  p_pnl :: rat
  p_exit_reason :: string

text \<open>The columns of table \<^verbatim>\<open>backtest_signals\<close> that the backtest query reads.\<close>

record backtest_table_row =
  bt_timestamp :: int
  bt_side :: string
  bt_pnl :: rat
  bt_profitable :: int
  bt_hold_time :: rat
  bt_features :: "string option"

text \<open>
  A database file is absent, or present but failing (\<^verbatim>\<open>sqlite3\<close> or the query raises,
  which the loaders catch; the text of the exception is kept), or readable with the rows
  of its tables.
\<close>

datatype live_db = LiveAbsent | LiveFails string | LiveTables "signal_row list" "pnl_row list"

datatype backtest_db =
  BacktestAbsent | BacktestFails string | BacktestTable "backtest_table_row list"

text \<open>
  A data frame is \<^verbatim>\<open>pd.DataFrame()\<close>, which has no columns and no rows, or the table a
  query returned, with the query's columns. \<^verbatim>\<open>df.empty\<close> holds when either axis is empty.
\<close>

datatype 'r frame = NoColumns | Table "'r list"

definition frame_empty :: "'r frame \<Rightarrow> bool" where
  "frame_empty df = (case df of NoColumns \<Rightarrow> True | Table rs \<Rightarrow> rs = [])"

definition frame_rows :: "'r frame \<Rightarrow> 'r list" where
  "frame_rows df = (case df of NoColumns \<Rightarrow> [] | Table rs \<Rightarrow> rs)"

datatype level = INFO | ERROR

type_synonym log = "(level \<times> string) list"

text \<open>
  \<^verbatim>\<open>ORDER BY\<close>, \<^verbatim>\<open>sort_values\<close>: ascending in the key. SQL and the default sort of
  pandas (a quicksort) promise no order among rows with equal keys; the order they take
  depends on the keys alone, never on the other columns. Here rows with equal keys keep
  their order, which is one such outcome. \<^verbatim>\<open>pd.concat\<close> with \<^verbatim>\<open>ignore_index\<close>: the rows
  of the frames in turn.
\<close>

definition sort_values :: "('r \<Rightarrow> int) \<Rightarrow> 'r list \<Rightarrow> 'r list" where
  "sort_values key rs = sort_key key rs"

definition pd_concat :: "'r list list \<Rightarrow> 'r list" where
  "pd_concat frames = concat frames"

text \<open>What \<^verbatim>\<open>load_trading_data\<close> returns: one frame, or a tuple of two.\<close>

datatype load_result =
  OneFrame "signal_row frame"
| TwoFrames "signal_row frame" "pnl_row frame"

definition load_trading_data :: "config \<Rightarrow> live_db \<Rightarrow> log \<times> load_result" where
  "load_trading_data cfg db =
     (case db of
        LiveAbsent \<Rightarrow>
          ([(ERROR, ''Database not found: '' @ data_source cfg)], OneFrame NoColumns)
      | LiveFails e \<Rightarrow>
          ([(ERROR, ''Error loading trading data: '' @ e)], TwoFrames NoColumns NoColumns)
      | LiveTables signals pnls \<Rightarrow>
          (let signals_df = sort_values sig_timestamp signals;
               pnl_df = sort_values p_timestamp pnls
           in ([(INFO, ''Loaded '' @ str_nat (length signals_df) @ '' signals and '' @
                       str_nat (length pnl_df) @ '' PnL records'')],
               TwoFrames (Table signals_df) (Table pnl_df))))"

definition backtest_select :: "backtest_table_row \<Rightarrow> backtest_row" where
  "backtest_select r =
     \<lparr>sig_timestamp = bt_timestamp r, decision = bt_side r, confidence = 1,
      trigger = ''backtest'', features = bt_features r,
      b_pnl = bt_pnl r, b_profitable = bt_profitable r, b_hold_time = bt_hold_time r\<rparr>"

definition load_backtest_data :: "backtest_db \<Rightarrow> log \<times> backtest_row frame" where
  "load_backtest_data db =
     (case db of
        BacktestAbsent \<Rightarrow> ([(INFO, ''No backtest data available'')], NoColumns)
      | BacktestFails e \<Rightarrow> ([(ERROR, ''Error loading backtest data: '' @ e)], NoColumns)
      | BacktestTable rs \<Rightarrow>
          (let backtest_df = map backtest_select (sort_values bt_timestamp rs)
           in ([(INFO, ''Loaded '' @ str_nat (length backtest_df) @ '' backtest signals'')],
               Table backtest_df)))"


section \<open>Example Builder: \<^verbatim>\<open>parse_features\<close>, \<^verbatim>\<open>create_training_examples\<close>\<close>

text \<open>
  \<^verbatim>\<open>json.loads\<close> is a parameter: the dictionary a JSON object text denotes (as an
  association list, feature values being numbers), \<open>None\<close> where parsing raises.
\<close>

type_synonym json_loads = "string \<Rightarrow> (string \<times> rat) list option"

definition parse_features :: "json_loads \<Rightarrow> string option \<Rightarrow> (string \<times> rat) list" where
  "parse_features loads features_json =
     (case features_json of
        None \<Rightarrow> []
      | Some text \<Rightarrow>
          (if text = [] then [] else (case loads text of None \<Rightarrow> [] | Some d \<Rightarrow> d)))"

definition dict_get :: "(string \<times> rat) list \<Rightarrow> string \<Rightarrow> rat \<Rightarrow> rat" where
  "dict_get d k dflt = (case map_of d k of None \<Rightarrow> dflt | Some v \<Rightarrow> v)"

text \<open>
  \<^verbatim>\<open>pd.to_datetime\<close> applied to a number, with no \<^verbatim>\<open>unit\<close> argument, reads it as
  nanoseconds since the epoch; \<^verbatim>\<open>pd.Timedelta(hours=1)\<close> is 3600 * 10^9 nanoseconds.
  Both are integers counting nanoseconds here.
\<close>

definition to_datetime :: "int \<Rightarrow> int" where
  "to_datetime t = t"

definition Timedelta_hours :: "int \<Rightarrow> int" where
  "Timedelta_hours h = h * 3600 * 1000000000"

definition in_window :: "int \<Rightarrow> pnl_row \<Rightarrow> bool" where
  "in_window signal_time p =
     (to_datetime (p_timestamp p) \<ge> signal_time \<and>
      to_datetime (p_timestamp p) \<le> signal_time + Timedelta_hours 1)"

definition pnl_window :: "pnl_row list \<Rightarrow> 'a signal_row_scheme \<Rightarrow> pnl_row list" where
  "pnl_window pnl_df signal =
     (let signal_time = to_datetime (sig_timestamp signal)
      in filter (in_window signal_time) pnl_df)"

definition derive_labels :: "pnl_row list \<Rightarrow> labels" where
  "derive_labels window =
     (if length window > 0
      then (let actual_pnl = sum_list (map p_pnl window)
            in \<lparr>profitable = (actual_pnl > 0), pnl = actual_pnl,
                hold_time = int (length window) * 60,
                exit_reason = p_exit_reason (last window)\<rparr>)
      else \<lparr>profitable = False, pnl = 0, hold_time = 0, exit_reason = ''no_trade''\<rparr>)"

text \<open>One turn of the loop over the signal rows: \<open>None\<close> where the row is skipped.\<close>

definition build_example :: "json_loads \<Rightarrow> pnl_row list \<Rightarrow> signal_row \<Rightarrow> example option" where
  "build_example loads pnl_df signal =
     (let fs = parse_features loads (features signal)
      in if fs = [] then None
         else Some
           \<lparr>timestamp = sig_timestamp signal,
            input_features =
              \<lparr>price = dict_get fs ''price'' 0,
               volume = dict_get fs ''volume'' 0,
               volatility = dict_get fs ''volatility'' 0,
               bodyOverAtr = dict_get fs ''bodyOverAtr'' 0,
               volumeZ = dict_get fs ''volumeZ'' 0,
               spreadBps = dict_get fs ''spreadBps'' 0,
               premiumPct = dict_get fs ''premiumPct'' 0,
               realizedVol = dict_get fs ''realizedVol'' 0,
               openInterest = dict_get fs ''openInterest'' 0,
               fundingRate = dict_get fs ''fundingRate'' 0\<rparr>,
            ai_decision = decision signal,
            ai_confidence = confidence signal,
            e3_trigger = trigger signal,
            labels = derive_labels (pnl_window pnl_df signal)\<rparr>)"

definition create_training_examples ::
  "json_loads \<Rightarrow> signal_row list \<Rightarrow> pnl_row list \<Rightarrow> example list" where
  "create_training_examples loads signals_df pnl_df =
     List.map_filter (build_example loads pnl_df) signals_df"


section \<open>The pipeline: \<^verbatim>\<open>TradingDataPreparer.run\<close>\<close>

text \<open>\<^verbatim>\<open>signals_df, pnl_df = value\<close>: a tuple of two unpacks into its components;
  a data frame iterates over its column labels, of which it never has exactly two here.\<close>

definition unpack2 :: "load_result \<Rightarrow> error + (signal_row frame \<times> pnl_row frame)" where
  "unpack2 v = (case v of OneFrame df \<Rightarrow> Inl ValueError | TwoFrames a b \<Rightarrow> Inr (a, b))"

definition synthetic_pnl :: "backtest_row \<Rightarrow> pnl_row" where
  "synthetic_pnl row =
     \<lparr>p_timestamp = sig_timestamp row, symbol = ''SOL-PERP'', p_pnl = b_pnl row,
      p_exit_reason = ''backtest''\<rparr>"

text \<open>
  The block under \<^verbatim>\<open>if not backtest_df.empty\<close>. Reading column \<^verbatim>\<open>timestamp\<close> of a frame
  without columns raises \<^verbatim>\<open>KeyError\<close>. The builder reads only the five columns the
  live signals have, so the combined signal rows carry those.
\<close>

definition combine_sources ::
  "signal_row frame \<Rightarrow> pnl_row frame \<Rightarrow> backtest_row frame
     \<Rightarrow> error + (log \<times> signal_row frame \<times> pnl_row frame)" where
  "combine_sources signals_df pnl_df backtest_df =
     (if \<not> frame_empty backtest_df
      then (let backtest_pnl = map synthetic_pnl (frame_rows backtest_df)
            in case signals_df of
                 NoColumns \<Rightarrow> Inl KeyError
               | Table live_rows \<Rightarrow>
                   (let signals2 =
                          pd_concat [live_rows, map signal_row.truncate (frame_rows backtest_df)];
                        pnl2 =
                          (if \<not> frame_empty pnl_df
                           then pd_concat [frame_rows pnl_df, backtest_pnl]
                           else backtest_pnl);
                        signals3 = sort_values sig_timestamp signals2;
                        pnl3 = sort_values p_timestamp pnl2
                    in Inr ([(INFO, ''Combined dataset: '' @ str_nat (length signals3) @
                                    '' total signals ('' @
                                    str_nat (length (frame_rows backtest_df)) @
                                    '' from backtest)'')],
                            Table signals3, Table pnl3)))
      else Inr ([], signals_df, pnl_df))"

text \<open>The outcome of a run: the log, and an exception, or a clean return with the files
  written (\<open>None\<close> when the run stopped before writing any).\<close>

definition run ::
  "config \<Rightarrow> json_loads \<Rightarrow> string \<Rightarrow> live_db \<Rightarrow> backtest_db
     \<Rightarrow> log \<times> (error + saved_files option)" where
  "run cfg loads now live backtest =
     (let log0 = [(INFO, ''Starting data preparation for LoRA training...'')];
          (log1, loaded) = load_trading_data cfg live
      in case unpack2 loaded of
           Inl e \<Rightarrow> (log0 @ log1, Inl e)
         | Inr (signals_df, pnl_df) \<Rightarrow>
             (let (log2, backtest_df) = load_backtest_data backtest
              in case combine_sources signals_df pnl_df backtest_df of
                   Inl e \<Rightarrow> (log0 @ log1 @ log2, Inl e)
                 | Inr (log3, signals_df2, pnl_df2) \<Rightarrow>
                     (if frame_empty signals_df2
                      then (log0 @ log1 @ log2 @ log3 @
                            [(ERROR, ''No trading data found. Cannot proceed with training.'')],
                            Inr None)
                      else (let examples =
                                  create_training_examples loads (frame_rows signals_df2)
                                    (frame_rows pnl_df2);
                                log4 = [(INFO, ''Created '' @ str_nat (length examples) @
                                               '' training examples'')]
                            in if examples = []
                               then (log0 @ log1 @ log2 @ log3 @ log4 @
                                     [(ERROR, ''No training examples created. Check your data.'')],
                                     Inr None)
                               else (let formatted_examples = format_for_training examples;
                                         files = save_training_data cfg now formatted_examples
                                     in (log0 @ log1 @ log2 @ log3 @ log4 @
                                         [(INFO, ''Saved '' @ str_nat (length (train_json files)) @
                                                 '' training examples to training/data/train.json''),
                                          (INFO, ''Saved '' @ str_nat (length (eval_json files)) @
                                                 '' evaluation examples to training/data/eval.json''),
                                          (INFO, ''Dataset statistics saved to training/data/dataset_stats.json''),
                                          (INFO, ''Data preparation completed successfully!'')],
                                         Inr (Some files)))))))"


section \<open>Notions used to state the properties\<close>

text \<open>
  From the specification's words, not from the code: trade \<open>i\<close> is an entry (side LONG or
  SHORT) whose immediately following trade exists and has side FLAT.
\<close>

definition entry_with_exit :: "trade list \<Rightarrow> nat \<Rightarrow> bool" where
  "entry_with_exit tr i =
     ((side (tr ! i) = ''LONG'' \<or> side (tr ! i) = ''SHORT'') \<and>
      i + 1 < length tr \<and> side (tr ! (i + 1)) = ''FLAT'')"

text \<open>
  From the specification's words: the attribution window of a signal is the hour after
  it, \<open>[signal_ts, signal_ts + 3600000]\<close> in epoch milliseconds, both ends included.
\<close>

definition attribution_window :: "pnl_row list \<Rightarrow> 'a signal_row_scheme \<Rightarrow> pnl_row list" where
  "attribution_window pnl_df signal =
     filter (\<lambda>p. sig_timestamp signal \<le> p_timestamp p \<and>
                 p_timestamp p \<le> sig_timestamp signal + 3600000) pnl_df"

text \<open>The characters that the renderings of numbers are made of.\<close>

definition numeric_char :: "char \<Rightarrow> bool" where
  "numeric_char c = (c \<in> set ''-.0123456789'')"


section \<open>Sample inputs\<close>

text \<open>Concrete values on which the properties below are exercised.\<close>

definition no_trade_labels :: labels where
  "no_trade_labels = \<lparr>profitable = False, pnl = 0, hold_time = 0, exit_reason = ''no_trade''\<rparr>"

text \<open>The doubles nearest to 0.8 and to 0.7.\<close>

definition sample_cfg :: config where
  "sample_cfg =
     \<lparr>data_source = ''var/trading.db'', train_split = 3602879701896397 / 4503599627370496\<rparr>"



text \<open>A stand-in for \<^verbatim>\<open>json.loads\<close> that knows one text.\<close>

definition sample_json :: string where
  \<open>sample_json = ''{"price": 101.5}''\<close>

definition sample_loads :: json_loads where
  "sample_loads text = (if text = sample_json then Some [(''price'', 203 / 2)] else None)"

definition sample_signal :: signal_row where
  "sample_signal =
     \<lparr>sig_timestamp = 1700000000000, decision = ''LONG'', confidence = 4 / 5,
      trigger = ''e3'', features = Some sample_json\<rparr>"

text \<open>A PnL row two hours after \<open>sample_signal\<close>.\<close>

definition late_pnl :: pnl_row where
  "late_pnl =
     \<lparr>p_timestamp = 1700007200000, symbol = ''SOL-PERP'', p_pnl = - 4, p_exit_reason = ''sl''\<rparr>"


text \<open>A stand-in for \<^verbatim>\<open>datetime.fromtimestamp(t).isoformat()\<close>: it fails before the
  epoch and otherwise prints the whole seconds.\<close>

definition sample_isofmt :: isoformat where
  "sample_isofmt t = (if 0 \<le> t then Some (''epoch+'' @ str_nat (nat \<lfloor>t\<rfloor>) @ ''s'') else None)"

definition long_alone :: backtest_data where
  "long_alone = \<lparr>trades = [\<lparr>side = ''LONG'', trade_price = 100, ts = 0\<rparr>], equityCurve = []\<rparr>"

definition long_then_flat :: backtest_data where
  "long_then_flat =
     \<lparr>trades = [\<lparr>side = ''LONG'', trade_price = 100, ts = 0\<rparr>,
                \<lparr>side = ''FLAT'', trade_price = 110, ts = 60000\<rparr>],
      equityCurve = []\<rparr>"

definition short_then_flat :: backtest_data where
  "short_then_flat =
     \<lparr>trades = [\<lparr>side = ''SHORT'', trade_price = 50, ts = 0\<rparr>,
                \<lparr>side = ''FLAT'', trade_price = 45, ts = 120000\<rparr>],
      equityCurve = []\<rparr>"

definition short_signal :: backtest_signal where
  "short_signal =
     \<lparr>s_timestamp = 0, s_side = ''SHORT'', entry_price = 50, exit_price = 45, s_pnl = 5,
      s_hold_time = 2, s_profitable = True, entry_time = ''epoch+0s'', exit_time = ''epoch+120s''\<rparr>"


definition zero_features :: input_features where
  "zero_features =
     \<lparr>price = 0, volume = 0, volatility = 0, bodyOverAtr = 0, volumeZ = 0, spreadBps = 0,
      premiumPct = 0, realizedVol = 0, openInterest = 0, fundingRate = 0\<rparr>"

definition tp_labels :: labels where
  "tp_labels = \<lparr>profitable = True, pnl = 25 / 2, hold_time = 30, exit_reason = ''tp''\<rparr>"

definition tp_example :: example where
  "tp_example =
     \<lparr>timestamp = 1700000000000, input_features = zero_features, ai_decision = ''LONG'',
      ai_confidence = 4 / 5, e3_trigger = ''e3'', labels = tp_labels\<rparr>"

definition decoy_loss :: example where
  "decoy_loss =
     \<lparr>timestamp = 1700000000000, input_features = zero_features, ai_decision = ''LONG'',
      ai_confidence = 4 / 5, e3_trigger = ''e3'',
      labels = \<lparr>profitable = False, pnl = - 1, hold_time = 60,
                exit_reason = ''Profitable: True''\<rparr>\<rparr>"

definition decoy_win :: example where
  "decoy_win =
     \<lparr>timestamp = 1700000000000, input_features = zero_features, ai_decision = ''LONG'',
      ai_confidence = 4 / 5, e3_trigger = ''e3'',
      labels = \<lparr>profitable = True, pnl = 1, hold_time = 60,
                exit_reason = ''Profitable: False''\<rparr>\<rparr>"

definition tied_live_pnl :: pnl_row where
  "tied_live_pnl =
     \<lparr>p_timestamp = 1700000000000, symbol = ''SOL-PERP'', p_pnl = 3, p_exit_reason = ''tp''\<rparr>"

definition tied_backtest_pnl :: pnl_row where
  "tied_backtest_pnl =
     \<lparr>p_timestamp = 1700000000000, symbol = ''SOL-PERP'', p_pnl = 2,
      p_exit_reason = ''backtest''\<rparr>"

definition later_signal :: signal_row where
  "later_signal =
     \<lparr>sig_timestamp = 1700000060000, decision = ''SHORT'', confidence = 1,
      trigger = ''backtest'', features = Some sample_json\<rparr>"

definition later_pnl :: pnl_row where
  "later_pnl =
     \<lparr>p_timestamp = 1700000060000, symbol = ''SOL-PERP'', p_pnl = 2,
      p_exit_reason = ''backtest''\<rparr>"


section \<open>Properties\<close>

subsection \<open>Rounding to a double\<close>












subsection \<open>Substrings of a rendered target\<close>

lemma sublist_foreign_char:
  assumes "c \<notin> set n"
  shows "sublist n (xs @ c # ys) \<longleftrightarrow> sublist n xs \<or> sublist n ys"
proof
  assume "sublist n (xs @ c # ys)"
  then consider "sublist n xs" | "sublist n (c # ys)"
    | n1 n2 where "n = n1 @ n2" "suffix n1 xs" "prefix n2 (c # ys)"
    by (auto simp add: sublist_append)
  then show "sublist n xs \<or> sublist n ys"
  proof cases
    case 1
    then show ?thesis by simp
  next
    case 2
    then have "prefix n (c # ys) \<or> sublist n ys" by (simp add: sublist_Cons_right)
    moreover have "n = []" if "prefix n (c # ys)"
      using that assms by (cases n) auto
    ultimately show ?thesis by auto
  next
    case 3
    have "n2 = []" using 3(1,3) assms by (cases n2) auto
    with 3 show ?thesis by auto
  qed
next
  assume "sublist n xs \<or> sublist n ys"
  then show "sublist n (xs @ c # ys)"
    by (auto simp add: sublist_append sublist_Cons_right)
qed

lemma sublist_foreign_prefix:
  assumes "n \<noteq> []" and "set ds \<inter> set n = {}"
  shows "sublist n (ds @ ys) \<longleftrightarrow> sublist n ys"
  using assms(2)
proof (induction ds)
  case Nil
  then show ?case by simp
next
  case (Cons d ds)
  then have "d \<notin> set n" and "set ds \<inter> set n = {}" by auto
  with Cons.IH sublist_foreign_char [of d n "[]" "ds @ ys"] assms(1)
  show ?case by simp
qed

lemma sublist_foreign_suffix:
  assumes "n \<noteq> []" and "set ds \<inter> set n = {}"
  shows "sublist n (xs @ ds) \<longleftrightarrow> sublist n xs"
proof (cases ds)
  case Nil
  then show ?thesis by simp
next
  case (Cons d ds')
  with assms(2) have "d \<notin> set n" and "set ds' \<inter> set n = {}" by auto
  moreover from sublist_foreign_prefix [OF assms(1) \<open>set ds' \<inter> set n = {}\<close>, of "[]"] assms(1)
  have "\<not> sublist n ds'" by simp
  ultimately show ?thesis
    using sublist_foreign_char [of d n xs ds'] Cons by simp
qed

lemma sublist_foreign_head:
  assumes "c \<notin> set a"
  shows "sublist (c # n) (a @ r) \<longleftrightarrow> sublist (c # n) r"
  using assms
proof (induction a)
  case Nil
  then show ?case by simp
next
  case (Cons x a)
  then show ?case by (auto simp add: sublist_Cons_right)
qed

lemma digit_char_numeric: "k < 10 \<Longrightarrow> numeric_char (digit_char k)"
proof -
  assume "k < 10"
  then have "k = 0 \<or> k = 1 \<or> k = 2 \<or> k = 3 \<or> k = 4 \<or> k = 5 \<or> k = 6 \<or> k = 7 \<or> k = 8 \<or> k = 9"
    by arith
  then show ?thesis
    by (elim disjE) (simp_all add: numeric_char_def digit_char_def)
qed

lemma list_all_replicate: "P c \<Longrightarrow> list_all P (replicate n c)"
  by (induction n) simp_all

lemma str_nat_numeric: "list_all numeric_char (str_nat n)"
proof (induction n rule: str_nat.induct)
  case (1 n)
  show ?case
  proof (cases "n < 10")
    case True
    then show ?thesis by (subst str_nat.simps) (simp add: digit_char_numeric)
  next
    case False
    with 1 show ?thesis by (subst str_nat.simps) (simp add: digit_char_numeric)
  qed
qed

lemma str_nat_nonempty: "str_nat n \<noteq> []"
  by (subst str_nat.simps) simp

lemma str_int_numeric: "list_all numeric_char (str_int i)"
  by (simp add: str_int_def str_nat_numeric) (simp add: numeric_char_def)

lemma str_int_nonempty: "str_int i \<noteq> []"
  by (simp add: str_int_def str_nat_nonempty)

lemma format_f_numeric: "list_all numeric_char (format_f d x)"
proof -
  have "numeric_char CHR ''0''" by (simp add: numeric_char_def)
  then have z: "list_all numeric_char (zero_pad d s)" if "list_all numeric_char s" for s
    using that by (simp add: zero_pad_def list_all_replicate)
  have m: "numeric_char CHR ''-''" and p: "numeric_char CHR ''.''"
    by (simp_all add: numeric_char_def)
  show ?thesis
    by (simp add: format_f_def Let_def str_nat_numeric z m p)
qed


lemma numeric_disjoint:
  assumes "list_all numeric_char ds" and "\<And>c. numeric_char c \<Longrightarrow> c \<notin> set n"
  shows "set ds \<inter> set n = {}"
  using assms by (auto simp add: list_all_iff)

lemma render_target_lines:
  "render_target l =
     ''Trade Analysis:'' @ CHR 0x0A #
     (''Profitable: '' @ str_bool (profitable l)) @ CHR 0x0A #
     (''Expected PnL: $'' @ format_f 2 (pnl l)) @ CHR 0x0A #
     (''Optimal Hold Time: '' @ str_int (hold_time l) @ '' minutes'') @ CHR 0x0A #
     (''Exit Strategy: '' @ exit_reason l) @ CHR 0x0A #
     (''Market Regime: '' @ (if \<bar>pnl l\<bar> > 1 then ''trending'' else ''ranging''))"
  by (simp add: render_target_def nl_def)

lemma sublist_foreign_block:
  assumes "n \<noteq> []" and "set ds \<inter> set n = {}" and "ds \<noteq> []"
  shows "sublist n (a @ ds @ b) \<longleftrightarrow> sublist n a \<or> sublist n b"
proof -
  obtain d ds' where ds: "ds = d # ds'" using assms(3) by (cases ds) auto
  with assms(2) have d: "d \<notin> set n" and ds': "set ds' \<inter> set n = {}" by auto
  have "sublist n (a @ d # (ds' @ b)) \<longleftrightarrow> sublist n a \<or> sublist n (ds' @ b)"
    by (rule sublist_foreign_char [OF d])
  also have "sublist n (ds' @ b) \<longleftrightarrow> sublist n b"
    by (rule sublist_foreign_prefix [OF assms(1) ds'])
  finally show ?thesis by (simp add: ds)
qed

lemma sublist_foreign_first:
  assumes "n = c # n'" and "c \<notin> set a"
  shows "sublist n (a @ r) \<longleftrightarrow> sublist n r"
  unfolding assms(1) by (rule sublist_foreign_head [OF assms(2)])

lemma sublist_render_target:
  assumes nl: "CHR 0x0A \<notin> set n"
    and hd: "n = CHR ''P'' # n'"
    and num: "\<And>c. numeric_char c \<Longrightarrow> c \<notin> set n"
    and c1: "\<not> sublist n ''Trade Analysis:''"
    and c2: "\<not> sublist n ''Expected PnL: $''"
    and c3: "\<not> sublist n ''Optimal Hold Time: ''"
    and c4: "\<not> sublist n '' minutes''"
    and c5: "\<not> sublist n ''Market Regime: trending''"
    and c6: "\<not> sublist n ''Market Regime: ranging''"
  shows "sublist n (render_target l) \<longleftrightarrow>
           sublist n (''Profitable: '' @ str_bool (profitable l)) \<or> sublist n (exit_reason l)"
proof -
  have ne: "n \<noteq> []" using hd by simp
  define F where "F = format_f 2 (pnl l)"
  define H where "H = str_int (hold_time l)"
  define R where "R = exit_reason l"
  define M where "M = ''Market Regime: '' @ (if \<bar>pnl l\<bar> > 1 then ''trending'' else ''ranging'')"
  define B where "B = ''Profitable: '' @ str_bool (profitable l)"
  have split: "sublist n (render_target l) \<longleftrightarrow>
      sublist n ''Trade Analysis:'' \<or> sublist n B \<or> sublist n (''Expected PnL: $'' @ F) \<or>
      sublist n (''Optimal Hold Time: '' @ H @ '' minutes'') \<or>
      sublist n (''Exit Strategy: '' @ R) \<or> sublist n M"
    unfolding render_target_lines F_def [symmetric] H_def [symmetric] R_def [symmetric]
      M_def [symmetric] B_def [symmetric]
    by (simp only: sublist_foreign_char [OF nl])
  have "set F \<inter> set n = {}"
    unfolding F_def by (rule numeric_disjoint [OF format_f_numeric num])
  from sublist_foreign_suffix [OF ne this, of "''Expected PnL: $''"] c2
  have pnl_line: "\<not> sublist n (''Expected PnL: $'' @ F)"
    by (rule ssubst)
  have "set H \<inter> set n = {}"
    unfolding H_def by (rule numeric_disjoint [OF str_int_numeric num])
  moreover have "H \<noteq> []"
    unfolding H_def by (rule str_int_nonempty)
  ultimately have "sublist n (''Optimal Hold Time: '' @ H @ '' minutes'') \<longleftrightarrow>
      sublist n ''Optimal Hold Time: '' \<or> sublist n '' minutes''"
    by (rule sublist_foreign_block [OF ne])
  with c3 c4 have hold_line: "\<not> sublist n (''Optimal Hold Time: '' @ H @ '' minutes'')"
    by (simp only: simp_thms)
  have exit_line: "sublist n (''Exit Strategy: '' @ R) \<longleftrightarrow> sublist n R"
    by (rule sublist_foreign_first [OF hd]) simp
  have "M = ''Market Regime: trending'' \<or> M = ''Market Regime: ranging''"
    unfolding M_def by simp
  then have regime: "\<not> sublist n M"
  proof
    assume "M = ''Market Regime: trending''"
    then show ?thesis by (simp only: c5 not_False_eq_True)
  next
    assume "M = ''Market Regime: ranging''"
    then show ?thesis by (simp only: c6 not_False_eq_True)
  qed
  show ?thesis
    unfolding split B_def [symmetric] R_def [symmetric]
    using c1 pnl_line hold_line regime
    by (simp only: exit_line simp_thms)
qed

lemma True_needle:
  shows "CHR 0x0A \<notin> set ''Profitable: True''"
    and "\<not> sublist ''Profitable: True'' ''Trade Analysis:''"
    and "\<not> sublist ''Profitable: True'' ''Expected PnL: $''"
    and "\<not> sublist ''Profitable: True'' ''Optimal Hold Time: ''"
    and "\<not> sublist ''Profitable: True'' '' minutes''"
    and "\<not> sublist ''Profitable: True'' ''Market Regime: trending''"
    and "\<not> sublist ''Profitable: True'' ''Market Regime: ranging''"
    and "sublist ''Profitable: True'' (''Profitable: '' @ str_bool True)"
    and "\<not> sublist ''Profitable: True'' (''Profitable: '' @ str_bool False)"
  by code_simp+

lemma False_needle:
  shows "CHR 0x0A \<notin> set ''Profitable: False''"
    and "\<not> sublist ''Profitable: False'' ''Trade Analysis:''"
    and "\<not> sublist ''Profitable: False'' ''Expected PnL: $''"
    and "\<not> sublist ''Profitable: False'' ''Optimal Hold Time: ''"
    and "\<not> sublist ''Profitable: False'' '' minutes''"
    and "\<not> sublist ''Profitable: False'' ''Market Regime: trending''"
    and "\<not> sublist ''Profitable: False'' ''Market Regime: ranging''"
    and "sublist ''Profitable: False'' (''Profitable: '' @ str_bool False)"
    and "\<not> sublist ''Profitable: False'' (''Profitable: '' @ str_bool True)"
  by code_simp+

lemma numeric_not_in_True: "numeric_char c \<Longrightarrow> c \<notin> set ''Profitable: True''"
  by (auto simp add: numeric_char_def)

lemma numeric_not_in_False: "numeric_char c \<Longrightarrow> c \<notin> set ''Profitable: False''"
  by (auto simp add: numeric_char_def)

lemma target_has_True:
  "str_in ''Profitable: True'' (render_target l) \<longleftrightarrow>
     profitable l \<or> str_in ''Profitable: True'' (exit_reason l)"
proof -
  have "sublist ''Profitable: True'' (''Profitable: '' @ str_bool (profitable l)) \<longleftrightarrow> profitable l"
    using True_needle(8,9) by (cases "profitable l") simp_all
  with sublist_render_target [of "''Profitable: True''" "''rofitable: True''" l,
      OF True_needle(1) _ numeric_not_in_True True_needle(2-7)]
  show ?thesis by (simp add: str_in_def)
qed

lemma target_has_False:
  "str_in ''Profitable: False'' (render_target l) \<longleftrightarrow>
     \<not> profitable l \<or> str_in ''Profitable: False'' (exit_reason l)"
proof -
  have "sublist ''Profitable: False'' (''Profitable: '' @ str_bool (profitable l)) \<longleftrightarrow> \<not> profitable l"
    using False_needle(8,9) by (cases "profitable l") simp_all
  with sublist_render_target [of "''Profitable: False''" "''rofitable: False''" l,
      OF False_needle(1) _ numeric_not_in_False False_needle(2-7)]
  show ?thesis by (simp add: str_in_def)
qed

subsection \<open>The loop of the extractor\<close>

lemma enumerate_nth: "enumerate 0 xs = map (\<lambda>i. (i, xs ! i)) [0..<length xs]"
proof -
  have "enumerate 0 (map (\<lambda>i. xs ! i) [0..<length xs]) = map (\<lambda>i. (i, xs ! i)) [0..<length xs]"
    by (simp add: enumerate_map_upt)
  then show ?thesis by (simp add: map_nth)
qed

lemma fold_extract_step_Inl: "fold (extract_step isofmt tr) its (Inl e) = Inl e"
  by (induction its) (simp_all add: extract_step_def)

lemma extract_step_cases:
  "extract_step isofmt tr (i, tr ! i) (Inr acc) =
     (if entry_with_exit tr i
      then (case make_signal isofmt (tr ! i) (tr ! (i + 1)) of
              Inl e \<Rightarrow> Inl e | Inr s \<Rightarrow> Inr (acc @ [s]))
      else Inr acc)"
  by (auto simp add: extract_step_def find_exit_def entry_with_exit_def Let_def)

lemma fold_extract_step_result:
  "fold (extract_step isofmt tr) (map (\<lambda>i. (i, tr ! i)) is) (Inr acc) = Inr signals \<Longrightarrow>
   map Inr signals =
     map Inr acc @ map (\<lambda>i. make_signal isofmt (tr ! i) (tr ! (i + 1))) (filter (entry_with_exit tr) is)"
proof (induction "is" arbitrary: acc)
  case Nil
  then show ?case by simp
next
  case (Cons i "is")
  show ?case
  proof (cases "entry_with_exit tr i")
    case False
    with Cons show ?thesis by (simp add: extract_step_cases)
  next
    case True
    show ?thesis
    proof (cases "make_signal isofmt (tr ! i) (tr ! (i + 1))")
      case (Inl e)
      with True Cons.prems show ?thesis
        by (simp add: extract_step_cases fold_extract_step_Inl)
    next
      case (Inr s)
      with True Cons.prems
      have "fold (extract_step isofmt tr) (map (\<lambda>i. (i, tr ! i)) is) (Inr (acc @ [s])) = Inr signals"
        by (simp add: extract_step_cases)
      from Cons.IH [OF this] True Inr show ?thesis by simp
    qed
  qed
qed

lemma make_signal_total:
  "isofmt (of_int (ts a) / 1000) \<noteq> None \<Longrightarrow> isofmt (of_int (ts b) / 1000) \<noteq> None \<Longrightarrow>
   \<exists>s. make_signal isofmt a b = Inr s"
  by (auto simp add: make_signal_def Let_def)

lemma fold_extract_step_total:
  "(\<And>i. i \<in> set is \<Longrightarrow> entry_with_exit tr i \<Longrightarrow>
        \<exists>s. make_signal isofmt (tr ! i) (tr ! (i + 1)) = Inr s) \<Longrightarrow>
   \<exists>signals. fold (extract_step isofmt tr) (map (\<lambda>i. (i, tr ! i)) is) (Inr acc) = Inr signals"
proof (induction "is" arbitrary: acc)
  case Nil
  then show ?case by simp
next
  case (Cons i "is")
  have rest: "\<exists>signals. fold (extract_step isofmt tr) (map (\<lambda>i. (i, tr ! i)) is) (Inr acc') = Inr signals"
    for acc'
  proof (rule Cons.IH)
    fix j assume "j \<in> set is" and "entry_with_exit tr j"
    then show "\<exists>s. make_signal isofmt (tr ! j) (tr ! (j + 1)) = Inr s"
      using Cons.prems [of j] by simp
  qed
  show ?case
  proof (cases "entry_with_exit tr i")
    case False
    with rest show ?thesis by (simp add: extract_step_cases)
  next
    case True
    with Cons.prems [of i] obtain s where "make_signal isofmt (tr ! i) (tr ! (i + 1)) = Inr s"
      by auto
    with True rest show ?thesis by (simp add: extract_step_cases)
  qed
qed

subsection \<open>Sorting a concatenation\<close>

lemma sort_values_append_commute:
  assumes "distinct (map key (xs @ ys))"
  shows "sort_values key (pd_concat [xs, ys]) = sort_values key (pd_concat [ys, xs])"
proof -
  have "sort_key key (xs @ ys) = sort_key key (ys @ xs)"
  proof (rule sort_key_inj_key_eq)
    show "mset (xs @ ys) = mset (sort_key key (ys @ xs))" by (simp add: ac_simps)
    from assms show "inj_on key (set (xs @ ys))" by (simp only: distinct_map)
    show "sorted (map key (sort_key key (ys @ xs)))" by (rule sorted_sort_key)
  qed
  then show ?thesis by (simp add: sort_values_def pd_concat_def)
qed

subsection \<open>The attribution window\<close>

text \<open>
  C1. The specification says that a PnL row is matched to a signal exactly when its timestamp lies
  in the hour after the signal, that is within 3600000 of the signal's timestamp, both
  being epoch milliseconds. The join compares the timestamps as nanoseconds: a PnL row is
  matched exactly when its timestamp lies within 3600000000000 of the signal's, so the
  row 3600001 milliseconds after the signal is matched.
\<close>

theorem window_is_nanoseconds:
  "(p \<in> set (pnl_window pnl_df signal) \<longleftrightarrow>
      p \<in> set pnl_df \<and> sig_timestamp signal \<le> p_timestamp p \<and>
      p_timestamp p \<le> sig_timestamp signal + 3600000000000) \<and>
   pnl_window
     [\<lparr>p_timestamp = 1700003600001, symbol = ''SOL-PERP'', p_pnl = 1, p_exit_reason = ''tp''\<rparr>]
     \<lparr>sig_timestamp = 1700000000000, decision = ''LONG'', confidence = 1, trigger = ''e3'',
      features = Some sample_json\<rparr> =
     [\<lparr>p_timestamp = 1700003600001, symbol = ''SOL-PERP'', p_pnl = 1, p_exit_reason = ''tp''\<rparr>]"
  by (auto simp add: pnl_window_def in_window_def to_datetime_def Timedelta_hours_def)

subsection \<open>A missing live database\<close>

text \<open>
  C2. The specification says that with no live database file the loader logs an error and returns
  an empty collection, and the pipeline then stops cleanly without output. The loader does
  log and return one empty frame; the pipeline unpacks that value into two names, which
  raises \<^verbatim>\<open>ValueError\<close> before the emptiness check is reached. When the file exists
  and reading it fails, the loader returns two empty frames and the run does stop cleanly.
\<close>

theorem missing_database_raises:
  "load_trading_data cfg LiveAbsent =
     ([(ERROR, ''Database not found: '' @ data_source cfg)], OneFrame NoColumns) \<and>
   run cfg loads now LiveAbsent backtest =
     ([(INFO, ''Starting data preparation for LoRA training...''),
       (ERROR, ''Database not found: '' @ data_source cfg)], Inl ValueError) \<and>
   run cfg loads now (LiveFails e) BacktestAbsent =
     ([(INFO, ''Starting data preparation for LoRA training...''),
       (ERROR, ''Error loading trading data: '' @ e),
       (INFO, ''No backtest data available''),
       (ERROR, ''No trading data found. Cannot proceed with training.'')], Inr None)"
  by (simp add: run_def load_trading_data_def load_backtest_data_def unpack2_def
      combine_sources_def frame_empty_def)

subsection \<open>The prefix split\<close>




subsection \<open>Signals without PnL\<close>

text \<open>
  C8. The specification says that a signal with a non-empty feature mapping whose
  attribution window, the hour after it, matches no PnL row yields an example with
  labels profitable = False, pnl = 0, hold_time = 0 and exit_reason = "no_trade". The
  builder compares the timestamps as nanoseconds (see C1), so its window reaches far
  beyond the hour: a signal with no PnL row in its hour and one PnL row two hours later
  gets the labels of that row.
\<close>

theorem window_beyond_the_hour:
  "attribution_window [late_pnl] sample_signal = [] \<and>
   parse_features sample_loads (features sample_signal) \<noteq> [] \<and>
   map labels (create_training_examples sample_loads [sample_signal] [late_pnl]) =
     [\<lparr>profitable = False, pnl = - 4, hold_time = 60, exit_reason = ''sl''\<rparr>]"
proof -
  have "attribution_window [late_pnl] sample_signal = []"
    by (simp add: attribution_window_def late_pnl_def sample_signal_def)
  moreover have "parse_features sample_loads (features sample_signal) \<noteq> []"
    by (simp add: parse_features_def sample_loads_def sample_signal_def sample_json_def)
  moreover have "map labels (create_training_examples sample_loads [sample_signal] [late_pnl]) =
     [\<lparr>profitable = False, pnl = - 4, hold_time = 60, exit_reason = ''sl''\<rparr>]"
    by code_simp
  ultimately show ?thesis by simp
qed

subsection \<open>The evaluator's check\<close>

text \<open>
  C10. \<^verbatim>\<open>is_prediction_correct\<close> returns True exactly when the prediction and the
  expected text agree on containing "Profitable: True"; so a prediction with neither
  "Profitable: True" nor "Profitable: False" counts as correct whenever the expected text
  does not contain "Profitable: True".
\<close>

theorem is_prediction_correct_substring_only:
  "(is_prediction_correct prediction expected \<longleftrightarrow>
      (str_in ''Profitable: True'' prediction \<longleftrightarrow> str_in ''Profitable: True'' expected)) \<and>
   (\<not> str_in ''Profitable: True'' prediction \<and> \<not> str_in ''Profitable: False'' prediction \<and>
    \<not> str_in ''Profitable: True'' expected \<longrightarrow> is_prediction_correct prediction expected)"
  by (simp add: is_prediction_correct_def)

theorem is_prediction_correct_substring_only_witness:
  "\<not> str_in ''Profitable: True'' ''no idea'' \<and> \<not> str_in ''Profitable: False'' ''no idea'' \<and>
   \<not> str_in ''Profitable: True'' (render_target no_trade_labels) \<and>
   is_prediction_correct ''no idea'' (render_target no_trade_labels)"
proof -
  have a: "\<not> str_in ''Profitable: True'' ''no idea''" by code_simp
  have b: "\<not> str_in ''Profitable: False'' ''no idea''" by code_simp
  have c: "\<not> str_in ''Profitable: True'' (render_target no_trade_labels)" by code_simp
  from is_prediction_correct_substring_only [of "''no idea''" "render_target no_trade_labels"] a b c
  show ?thesis by blast
qed

subsection \<open>Backtest entries and exits\<close>

text \<open>
  C5. The extractor emits a derived signal for an entry trade (side LONG or SHORT)
  exactly when the immediately following trade has side FLAT: provided the time stamps
  of the trades can be rendered as dates, it returns one signal for each such index, in
  order, and none for any other trade. So a lone LONG yields no signal and a LONG followed
  by a FLAT yields one.
\<close>

theorem signal_iff_next_is_flat:
  assumes "\<forall>t \<in> set (trades data). isofmt (of_int (ts t) / 1000) \<noteq> None"
  shows "\<exists>signals. extract_trading_signals isofmt data = Inr signals \<and>
           map Inr signals =
             map (\<lambda>i. make_signal isofmt (trades data ! i) (trades data ! (i + 1)))
               (filter (entry_with_exit (trades data)) [0..<length (trades data)]) \<and>
           length signals =
             length (filter (entry_with_exit (trades data)) [0..<length (trades data)])"
proof -
  let ?tr = "trades data"
  have "\<exists>s. make_signal isofmt (?tr ! i) (?tr ! (i + 1)) = Inr s"
    if "i \<in> set [0..<length ?tr]" and "entry_with_exit ?tr i" for i
  proof (rule make_signal_total)
    from that have "i < length ?tr" and "i + 1 < length ?tr"
      by (simp_all add: entry_with_exit_def)
    then have "?tr ! i \<in> set ?tr" and "?tr ! (i + 1) \<in> set ?tr"
      by (simp_all only: nth_mem)
    with assms show "isofmt (of_int (ts (?tr ! i)) / 1000) \<noteq> None"
      and "isofmt (of_int (ts (?tr ! (i + 1))) / 1000) \<noteq> None"
      by blast+
  qed
  from fold_extract_step_total [of "[0..<length ?tr]" ?tr isofmt "[]", OF this]
  obtain signals where run: "extract_trading_signals isofmt data = Inr signals"
    by (auto simp add: extract_trading_signals_def enumerate_nth)
  then have eq: "map Inr signals =
      map (\<lambda>i. make_signal isofmt (?tr ! i) (?tr ! (i + 1)))
        (filter (entry_with_exit ?tr) [0..<length ?tr])"
    using fold_extract_step_result [of isofmt ?tr "[0..<length ?tr]" "[]" signals]
    by (simp add: extract_trading_signals_def enumerate_nth)
  from arg_cong [OF eq, of length] have "length signals =
      length (filter (entry_with_exit ?tr) [0..<length ?tr])"
    by simp
  with run eq show ?thesis by blast
qed

theorem signal_iff_next_is_flat_witness:
  "(\<exists>signals. extract_trading_signals sample_isofmt long_then_flat = Inr signals \<and>
      length signals = 1) \<and>
   (\<exists>signals. extract_trading_signals sample_isofmt long_alone = Inr signals \<and>
      length signals = 0)"
proof -
  have a: "\<forall>t \<in> set (trades long_then_flat). sample_isofmt (of_int (ts t) / 1000) \<noteq> None"
    by (simp add: long_then_flat_def sample_isofmt_def)
  have b: "\<forall>t \<in> set (trades long_alone). sample_isofmt (of_int (ts t) / 1000) \<noteq> None"
    by (simp add: long_alone_def sample_isofmt_def)
  have c: "length (filter (entry_with_exit (trades long_then_flat))
      [0..<length (trades long_then_flat)]) = 1"
    by code_simp
  have d: "length (filter (entry_with_exit (trades long_alone))
      [0..<length (trades long_alone)]) = 0"
    by code_simp
  from signal_iff_next_is_flat [OF a] signal_iff_next_is_flat [OF b] c d
  show ?thesis by auto
qed

subsection \<open>The fields of a derived signal\<close>

text \<open>
  C6. Every derived signal the extractor returns comes from an entry trade and the FLAT
  trade after it, with pnl = exit price - entry price for a LONG entry and entry price -
  exit price for a SHORT entry, hold_time = (exit ts - entry ts) / 60000, and
  profitable = (pnl > 0). A SHORT at 50 at time 0 closed at 45 at time 120000 gives pnl 5,
  hold_time 2 and profitable True.
\<close>

theorem derived_signal_fields:
  assumes "extract_trading_signals isofmt data = Inr signals" and "s \<in> set signals"
  shows "\<exists>i. i + 1 < length (trades data) \<and>
           (let entry = trades data ! i; exit = trades data ! (i + 1)
            in (side entry = ''LONG'' \<or> side entry = ''SHORT'') \<and> side exit = ''FLAT'' \<and>
               s_side s = side entry \<and> s_timestamp s = ts entry \<and>
               entry_price s = trade_price entry \<and> exit_price s = trade_price exit \<and>
               s_pnl s = (if side entry = ''LONG'' then exit_price s - entry_price s
                          else entry_price s - exit_price s) \<and>
               s_hold_time s = of_int (ts exit - ts entry) / 60000 \<and>
               s_profitable s = (s_pnl s > 0))"
proof -
  let ?tr = "trades data"
  have "map Inr signals =
      map (\<lambda>i. make_signal isofmt (?tr ! i) (?tr ! (i + 1)))
        (filter (entry_with_exit ?tr) [0..<length ?tr])"
    using assms(1) fold_extract_step_result [of isofmt ?tr "[0..<length ?tr]" "[]" signals]
    by (simp add: extract_trading_signals_def enumerate_nth)
  moreover from assms(2) have "Inr s \<in> set (map Inr signals :: (error + backtest_signal) list)"
    by simp
  ultimately obtain i where i: "entry_with_exit ?tr i"
    and mk: "make_signal isofmt (?tr ! i) (?tr ! (i + 1)) = Inr s"
    by auto
  from mk have "s_side s = side (?tr ! i)" "s_timestamp s = ts (?tr ! i)"
    "entry_price s = trade_price (?tr ! i)" "exit_price s = trade_price (?tr ! (i + 1))"
    "s_pnl s = (if side (?tr ! i) = ''LONG'' then exit_price s - entry_price s
                else entry_price s - exit_price s)"
    "s_hold_time s = of_int (ts (?tr ! (i + 1)) - ts (?tr ! i)) / 60000"
    "s_profitable s = (s_pnl s > 0)"
    by (auto simp add: make_signal_def Let_def split: option.splits)
  with i show ?thesis
    by (intro exI [of _ i]) (simp add: entry_with_exit_def Let_def)
qed

theorem derived_signal_fields_witness:
  "extract_trading_signals sample_isofmt short_then_flat = Inr [short_signal] \<and>
   short_signal \<in> set [short_signal] \<and>
   s_pnl short_signal = 5 \<and> s_hold_time short_signal = 2 \<and> s_profitable short_signal \<and>
   (\<exists>i. i + 1 < length (trades short_then_flat) \<and>
      (let entry = trades short_then_flat ! i; exit = trades short_then_flat ! (i + 1)
       in (side entry = ''LONG'' \<or> side entry = ''SHORT'') \<and> side exit = ''FLAT'' \<and>
          s_side short_signal = side entry \<and> s_timestamp short_signal = ts entry \<and>
          entry_price short_signal = trade_price entry \<and>
          exit_price short_signal = trade_price exit \<and>
          s_pnl short_signal =
            (if side entry = ''LONG'' then exit_price short_signal - entry_price short_signal
             else entry_price short_signal - exit_price short_signal) \<and>
          s_hold_time short_signal = of_int (ts exit - ts entry) / 60000 \<and>
          s_profitable short_signal = (s_pnl short_signal > 0)))"
proof -
  have a: "extract_trading_signals sample_isofmt short_then_flat = Inr [short_signal]"
    by code_simp
  have b: "short_signal \<in> set [short_signal]" by simp
  have c: "s_pnl short_signal = 5 \<and> s_hold_time short_signal = 2 \<and> s_profitable short_signal"
    by (simp add: short_signal_def)
  from derived_signal_fields [OF a b] a b c show ?thesis by blast
qed

subsection \<open>The label through the text template\<close>

text \<open>
  C3. The specification says that the substring test for "Profitable: True" on the rendered target
  returns the example's profitable label for every example. It does not when the example
  is unprofitable and its exit reason, which is copied into the target, contains that
  text. As amended: an example with labels profitable = True, pnl = 12.5, hold_time = 30,
  exit_reason = "tp" renders to a target that contains "Profitable: True" and
  "Expected PnL: $12.50"; and for every example that is profitable or whose exit reason
  does not contain "Profitable: True", the test on the rendered target returns the
  example's profitable label.
\<close>

theorem label_round_trip:
  "(labels ex = tp_labels \<longrightarrow>
      str_in ''Profitable: True'' (output_of (format_example ex)) \<and>
      str_in ''Expected PnL: $12.50'' (output_of (format_example ex))) \<and>
   (profitable (labels ex) \<or> \<not> str_in ''Profitable: True'' (exit_reason (labels ex)) \<longrightarrow>
      str_in ''Profitable: True'' (output_of (format_example ex)) = profitable (labels ex))"
proof -
  have "str_in ''Profitable: True'' (render_target tp_labels)"
    and "str_in ''Expected PnL: $12.50'' (render_target tp_labels)"
    by code_simp+
  then show ?thesis
    by (auto simp add: format_example_def target_has_True)
qed

theorem label_round_trip_witness:
  "labels tp_example = tp_labels \<and> profitable (labels tp_example) \<and>
   str_in ''Profitable: True'' (output_of (format_example tp_example)) \<and>
   str_in ''Expected PnL: $12.50'' (output_of (format_example tp_example)) \<and>
   str_in ''Profitable: True'' (output_of (format_example tp_example)) =
     profitable (labels tp_example)"
proof -
  have a: "labels tp_example = tp_labels" by (simp add: tp_example_def)
  have b: "profitable (labels tp_example)" by (simp add: tp_example_def tp_labels_def)
  from label_round_trip [of tp_example] a b show ?thesis by blast
qed

theorem label_round_trip_counterexample:
  "\<not> profitable (labels decoy_loss) \<and>
   str_in ''Profitable: True'' (output_of (format_example decoy_loss))"
  by code_simp

subsection \<open>The counts in the statistics\<close>

text \<open>
  C9. The specification says that profitable_trades + unprofitable_trades = total_examples for every
  list handed to the writer. An example whose exit reason contains the text of the other
  outcome is counted twice. As amended: for the rendering of every list of examples in
  which no exit reason contains "Profitable: " followed by the negation of the example's
  own profitable label, the two counts sum to total_examples, and they are the numbers of
  profitable and of unprofitable examples.
\<close>

theorem stats_counts_sum:
  assumes "\<forall>ex \<in> set examples.
             \<not> str_in (''Profitable: '' @ str_bool (\<not> profitable (labels ex)))
                 (exit_reason (labels ex))"
  shows "let st = dataset_stats_json (save_training_data cfg now (format_for_training examples))
         in profitable_trades st + unprofitable_trades st = total_examples st \<and>
            profitable_trades st = length (filter (\<lambda>ex. profitable (labels ex)) examples) \<and>
            unprofitable_trades st = length (filter (\<lambda>ex. \<not> profitable (labels ex)) examples)"
proof -
  have t: "str_in ''Profitable: True'' (output_of (format_example ex)) \<longleftrightarrow> profitable (labels ex)"
    if "ex \<in> set examples" for ex
    using assms that by (cases "profitable (labels ex)")
      (auto simp add: format_example_def target_has_True str_bool_def)
  have f: "str_in ''Profitable: False'' (output_of (format_example ex)) \<longleftrightarrow> \<not> profitable (labels ex)"
    if "ex \<in> set examples" for ex
    using assms that by (cases "profitable (labels ex)")
      (auto simp add: format_example_def target_has_False str_bool_def)
  have p: "length (filter (\<lambda>fe. str_in ''Profitable: True'' (output_of fe))
        (format_for_training examples)) =
      length (filter (\<lambda>ex. profitable (labels ex)) examples)"
    unfolding format_for_training_def filter_map length_map o_def
    by (rule arg_cong [where f = length], rule filter_cong) (simp_all add: t)
  have u: "length (filter (\<lambda>fe. str_in ''Profitable: False'' (output_of fe))
        (format_for_training examples)) =
      length (filter (\<lambda>ex. \<not> profitable (labels ex)) examples)"
    unfolding format_for_training_def filter_map length_map o_def
    by (rule arg_cong [where f = length], rule filter_cong) (simp_all add: f)
  have n: "length (format_for_training examples) = length examples"
    by (simp add: format_for_training_def)
  have "length (filter (\<lambda>ex. profitable (labels ex)) examples) +
      length (filter (\<lambda>ex. \<not> profitable (labels ex)) examples) = length examples"
    by (rule sum_length_filter_compl)
  with p u n show ?thesis
    by (simp add: save_training_data_def Let_def)
qed

theorem stats_counts_sum_witness:
  "(let st = dataset_stats_json
        (save_training_data sample_cfg ''2025-01-01'' (format_for_training [tp_example]))
    in profitable_trades st + unprofitable_trades st = total_examples st \<and>
       profitable_trades st = 1 \<and> unprofitable_trades st = 0)"
proof -
  have a: "\<forall>ex \<in> set [tp_example].
      \<not> str_in (''Profitable: '' @ str_bool (\<not> profitable (labels ex))) (exit_reason (labels ex))"
    by code_simp
  have b: "length (filter (\<lambda>ex. profitable (labels ex)) [tp_example]) = 1"
    and c: "length (filter (\<lambda>ex. \<not> profitable (labels ex)) [tp_example]) = 0"
    by (simp_all add: tp_example_def tp_labels_def)
  from stats_counts_sum [OF a, of sample_cfg "''2025-01-01''"] b c
  show ?thesis by (simp add: Let_def)
qed

theorem stats_counts_sum_counterexample:
  "profitable_trades (dataset_stats_json
      (save_training_data sample_cfg ''2025-01-01'' (format_for_training [decoy_win]))) = 1 \<and>
   unprofitable_trades (dataset_stats_json
      (save_training_data sample_cfg ''2025-01-01'' (format_for_training [decoy_win]))) = 1 \<and>
   total_examples (dataset_stats_json
      (save_training_data sample_cfg ''2025-01-01'' (format_for_training [decoy_win]))) = 1"
  by code_simp

subsection \<open>The order of concatenation\<close>

text \<open>
  C7. The specification says that the examples do not depend on the order in which the live and the
  backtest collections are concatenated before sorting. Sorting looks at the timestamp
  only, so rows with equal timestamps keep an order that depends on the concatenation,
  and with it the last row of a window and its exit reason. (The two inputs of the
  counterexample have the same sequence of keys, so any sort that compares keys only
  permutes both in the same way.) As amended: when no two signal rows and no two PnL rows
  of the combined collections share a timestamp, the examples built after concatenating
  and sorting are the same for both orders of concatenation.
\<close>

theorem concat_order_irrelevant:
  assumes "distinct (map sig_timestamp (live_signals @ backtest_signals))"
    and "distinct (map p_timestamp (live_pnl @ backtest_pnl))"
  shows "create_training_examples loads
           (sort_values sig_timestamp (pd_concat [live_signals, backtest_signals]))
           (sort_values p_timestamp (pd_concat [live_pnl, backtest_pnl])) =
         create_training_examples loads
           (sort_values sig_timestamp (pd_concat [backtest_signals, live_signals]))
           (sort_values p_timestamp (pd_concat [backtest_pnl, live_pnl]))"
  by (simp only: sort_values_append_commute [OF assms(1)] sort_values_append_commute [OF assms(2)])

theorem concat_order_irrelevant_witness:
  "distinct (map sig_timestamp ([sample_signal] @ [later_signal])) \<and>
   distinct (map p_timestamp ([tied_live_pnl] @ [later_pnl])) \<and>
   create_training_examples sample_loads
     (sort_values sig_timestamp (pd_concat [[sample_signal], [later_signal]]))
     (sort_values p_timestamp (pd_concat [[tied_live_pnl], [later_pnl]])) =
   create_training_examples sample_loads
     (sort_values sig_timestamp (pd_concat [[later_signal], [sample_signal]]))
     (sort_values p_timestamp (pd_concat [[later_pnl], [tied_live_pnl]]))"
proof -
  have a: "distinct (map sig_timestamp ([sample_signal] @ [later_signal]))"
    by (simp add: sample_signal_def later_signal_def)
  have b: "distinct (map p_timestamp ([tied_live_pnl] @ [later_pnl]))"
    by (simp add: tied_live_pnl_def later_pnl_def)
  from concat_order_irrelevant [OF a b, of sample_loads] a b show ?thesis by blast
qed

theorem concat_order_counterexample:
  "map exit_reason (map labels (create_training_examples sample_loads
     (sort_values sig_timestamp (pd_concat [[sample_signal], []]))
     (sort_values p_timestamp (pd_concat [[tied_live_pnl], [tied_backtest_pnl]])))) =
     [''backtest''] \<and>
   map exit_reason (map labels (create_training_examples sample_loads
     (sort_values sig_timestamp (pd_concat [[], [sample_signal]]))
     (sort_values p_timestamp (pd_concat [[tied_backtest_pnl], [tied_live_pnl]])))) =
     [''tp'']"
  by code_simp

end
